theory Spec2Isabelle
  imports Main "HOL-Library.Sublist"
begin

section \<open>Values, exceptions and collaborators of \<^verbatim>\<open>routers/accounts.py\<close>\<close>

text \<open>
  The module is a set of request handlers around three collaborators that are not part of
  it: the user store (\<^verbatim>\<open>UsersQueries\<close>), the password hasher (\<^verbatim>\<open>pwd_context\<close>) and
  the token library (\<^verbatim>\<open>jwt\<close>, \<^verbatim>\<open>jws\<close>). The handlers are embedded as HOL functions;
  the collaborators are arguments of the embedding, so a theorem stated for arbitrary
  arguments holds for any store, any hasher and any token library. Where a statement is
  about one request, it is evaluated on the concrete collaborators defined further down.
\<close>

subsection \<open>Python values\<close>

text \<open>
  The values a claims dictionary holds. \<open>JNull\<close> is Python's \<^verbatim>\<open>None\<close>: it is what
  \<^verbatim>\<open>payload.get("sub")\<close> gives for a missing key as well as for a key bound to null.
\<close>

datatype json =
    JNull
  | JBool bool
  | JNum int
  | JStr string
  | JArr "json list"
  | JObj "(string \<times> json) list"

type_synonym claims = "string \<rightharpoonup> json"

definition dict_get :: "claims \<Rightarrow> string \<Rightarrow> json" where
  "dict_get d k = (case d k of None \<Rightarrow> JNull | Some v \<Rightarrow> v)"

text \<open>What a handler returns: nothing, a byte string, or a dictionary of strings.\<close>

datatype pyret =
    PyNone
  | PyBytes string
  | PyDict "string \<rightharpoonup> string"

text \<open>
  The exception classes the module names, and \<open>OtherError\<close> for any class it does not.
  \<open>JWTError\<close> and \<open>JWSError\<close> are unrelated classes of the token library; each stands
  for the class together with its subclasses, as an \<^verbatim>\<open>except\<close> clause reads it.
  \<open>HTTPException\<close> carries its status code, its detail and its headers.
\<close>

datatype exn =
    HTTPException nat string "(string \<times> string) list"
  | JWTError
  | JWSError
  | AttributeError
  | OtherError string

subsection \<open>The user store\<close>

text \<open>
  A row of the users table is the tuple \<^verbatim>\<open>(id, user, password, email)\<close>; the handlers
  read it by position. \<^verbatim>\<open>get_user\<close> returns a row or \<^verbatim>\<open>None\<close>. Its argument is a
  string at login and whatever the token's \<^verbatim>\<open>sub\<close> claim holds at resolution.
\<close>

type_synonym row = "int \<times> string \<times> string \<times> string"

fun row0 :: "row \<Rightarrow> int" where "row0 (a, b, c, d) = a"
fun row1 :: "row \<Rightarrow> string" where "row1 (a, b, c, d) = b"
fun row2 :: "row \<Rightarrow> string" where "row2 (a, b, c, d) = c"
fun row3 :: "row \<Rightarrow> string" where "row3 (a, b, c, d) = d"

record UsersQueries =
  get_user :: "json \<Rightarrow> row option"

subsection \<open>Module globals\<close>

text \<open>
  \<^verbatim>\<open>SECRET_KEY\<close> is read from the process environment at import time. The three calls
  into the token library and the one into the password hasher may raise, so each returns
  an exception or a value. \<^verbatim>\<open>jwt.decode\<close> is handed the selected token as it is, which
  may be \<^verbatim>\<open>None\<close>.
\<close>

record globals =
  SECRET_KEY :: string
  pwd_context_verify :: "string \<Rightarrow> string \<Rightarrow> exn + bool"
  jwt_encode :: "claims \<Rightarrow> string \<Rightarrow> string \<Rightarrow> exn + string"
  jwt_decode :: "string option \<Rightarrow> string \<Rightarrow> string list \<Rightarrow> exn + claims"
  jws_verify :: "string \<Rightarrow> string \<Rightarrow> string \<Rightarrow> exn + string"

definition ALGORITHM :: string where
  "ALGORITHM = ''HS256''"

definition ACCESS_TOKEN_EXPIRE_MINUTES :: nat where
  "ACCESS_TOKEN_EXPIRE_MINUTES = 30"

definition COOKIE_NAME :: string where
  "COOKIE_NAME = ''jwtdown_access_token''"

subsection \<open>Requests and responses\<close>

text \<open>
  A request carries its headers, in order and with lower-case names as the server hands
  them over, and its cookies. \<^verbatim>\<open>"origin" in headers\<close> asks whether some header has that
  name and \<^verbatim>\<open>headers["origin"]\<close> reads the first one, which is what \<open>map_of\<close> does.
\<close>

record request =
  headers :: "(string \<times> string) list"
  cookies :: "string \<rightharpoonup> string"

text \<open>
  The handlers act on the response through \<^verbatim>\<open>set_cookie\<close>, \<^verbatim>\<open>delete_cookie\<close> and
  an assignment to \<^verbatim>\<open>status_code\<close>. The response records the cookie calls in order,
  each with the keyword arguments the handler passed.
\<close>

datatype cookie_call =
    SetCookie (ckey: string) (cvalue: string) (chttponly: bool) (csamesite: string) (csecure: bool)
  | DeleteCookie (ckey: string) (chttponly: bool) (csamesite: string) (csecure: bool)

record response =
  status_code :: "nat option"
  cookie_calls :: "cookie_call list"

definition set_cookie :: "response \<Rightarrow> string \<Rightarrow> string \<Rightarrow> bool \<Rightarrow> string \<Rightarrow> bool \<Rightarrow> response" where
  "set_cookie r k v h ss sec = r\<lparr>cookie_calls := cookie_calls r @ [SetCookie k v h ss sec]\<rparr>"

definition delete_cookie :: "response \<Rightarrow> string \<Rightarrow> bool \<Rightarrow> string \<Rightarrow> bool \<Rightarrow> response" where
  "delete_cookie r k h ss sec = r\<lparr>cookie_calls := cookie_calls r @ [DeleteCookie k h ss sec]\<rparr>"

text \<open>Python's \<^verbatim>\<open>needle in haystack\<close> on strings: a contiguous occurrence.\<close>

fun str_contains :: "string \<Rightarrow> string \<Rightarrow> bool" where
  "str_contains needle [] = (needle = [])"
| "str_contains needle (c # cs) = (prefix needle (c # cs) \<or> str_contains needle cs)"

text \<open>Truth value of an \<^verbatim>\<open>Optional[str]\<close>: \<^verbatim>\<open>None\<close> and the empty string are false.\<close>

definition truthy :: "string option \<Rightarrow> bool" where
  "truthy t = (case t of None \<Rightarrow> False | Some s \<Rightarrow> s \<noteq> [])"

section \<open>The functions of the module\<close>

definition row_to_user :: "row \<Rightarrow> claims" where
  "row_to_user row =
     [''id'' \<mapsto> JNum (row0 row),
      ''user'' \<mapsto> JStr (row1 row),
      ''password'' \<mapsto> JStr (row2 row),
      ''email'' \<mapsto> JStr (row3 row)]"

definition verify_password :: "globals \<Rightarrow> string \<Rightarrow> string \<Rightarrow> exn + bool" where
  "verify_password g plain_password hashed_password =
     pwd_context_verify g plain_password hashed_password"

text \<open>
  \<^verbatim>\<open>authenticate_user\<close> returns \<^verbatim>\<open>False\<close> or the row. A row is a tuple of four
  fields, so \<^verbatim>\<open>not user\<close> holds exactly when the store returned \<^verbatim>\<open>None\<close>.
\<close>

datatype auth_result = AuthFalse | AuthUser row

definition authenticate_user :: "globals \<Rightarrow> UsersQueries \<Rightarrow> string \<Rightarrow> string \<Rightarrow> exn + auth_result" where
  "authenticate_user g repo username password =
     (case get_user repo (JStr username) of
        None \<Rightarrow> Inr AuthFalse
      | Some user \<Rightarrow>
          (case verify_password g password (row2 user) of
             Inl e \<Rightarrow> Inl e
           | Inr ok \<Rightarrow> if \<not> ok then Inr AuthFalse else Inr (AuthUser user)))"

definition dict_copy :: "claims \<Rightarrow> claims" where
  "dict_copy d = (\<lambda>k. d k)"

definition create_access_token :: "globals \<Rightarrow> claims \<Rightarrow> exn + string" where
  "create_access_token g data =
     (let to_encode = dict_copy data
      in jwt_encode g to_encode (SECRET_KEY g) ALGORITHM)"

definition credentials_exception :: exn where
  "credentials_exception =
     HTTPException 401 ''Invalid authentication credentials'' [(''WWW-Authenticate'', ''Bearer'')]"

text \<open>Lines 100 to 102: the token handed to the decoder.\<close>

definition select_token :: "string option \<Rightarrow> string option \<Rightarrow> string option" where
  "select_token bearer_token cookie_token =
     (if \<not> truthy bearer_token \<and> truthy cookie_token then cookie_token else bearer_token)"

definition get_current_user ::
  "globals \<Rightarrow> UsersQueries \<Rightarrow> string option \<Rightarrow> string option \<Rightarrow> exn + claims" where
  "get_current_user g repo bearer_token cookie_token =
     (let token = select_token bearer_token cookie_token
      in case jwt_decode g token (SECRET_KEY g) [ALGORITHM] of
           Inl e \<Rightarrow>
             if e = JWTError \<or> e = AttributeError then Inl credentials_exception else Inl e
         | Inr payload \<Rightarrow>
             (let username = dict_get payload ''sub''
              in if username = JNull then Inl credentials_exception
                 else (case get_user repo username of
                         None \<Rightarrow> Inl credentials_exception
                       | Some user \<Rightarrow> Inr (row_to_user user))))"

text \<open>The form of the login request.\<close>

record form_data =
  username :: string
  password :: string

definition login_for_access_token ::
  "globals \<Rightarrow> response \<Rightarrow> request \<Rightarrow> form_data \<Rightarrow> UsersQueries \<Rightarrow> exn + (pyret \<times> response)" where
  "login_for_access_token g response request form repo =
     (case authenticate_user g repo (username form) (password form) of
        Inl e \<Rightarrow> Inl e
      | Inr AuthFalse \<Rightarrow>
          Inl (HTTPException 401 ''Invalid authentication credentials''
                 [(''WWW-Authenticate'', ''Bearer'')])
      | Inr (AuthUser user) \<Rightarrow>
          (case create_access_token g [''sub'' \<mapsto> JStr (row1 user)] of
             Inl e \<Rightarrow> Inl e
           | Inr access_token \<Rightarrow>
               (let token = [''access_token'' \<mapsto> access_token, ''token_type'' \<mapsto> ''bearer''];
                    hs = headers request;
                    local = (case map_of hs ''origin'' of
                               None \<Rightarrow> False
                             | Some origin \<Rightarrow> str_contains ''localhost'' origin);
                    samesite = (if local then ''lax'' else ''none'');
                    secure = (if local then False else True)
                in Inr (PyDict token,
                        set_cookie response COOKIE_NAME access_token True samesite secure))))"

text \<open>
  The class \<^verbatim>\<open>AccessToken\<close> has the one required field \<^verbatim>\<open>token: str\<close>. A route
  declared with \<^verbatim>\<open>response_model=AccessToken\<close> answers with what its function returned
  only after that value has been validated against the class: a dictionary with a
  \<^verbatim>\<open>token\<close> entry becomes the body with that one field, and any other value, \<^verbatim>\<open>None\<close>
  included, is a response validation error.
\<close>

definition response_model_AccessToken :: "pyret \<Rightarrow> exn + pyret" where
  "response_model_AccessToken ret =
     (case ret of
        PyDict d \<Rightarrow>
          (case d ''token'' of
             Some v \<Rightarrow> Inr (PyDict [''token'' \<mapsto> v])
           | None \<Rightarrow> Inl (OtherError ''ResponseValidationError''))
      | _ \<Rightarrow> Inl (OtherError ''ResponseValidationError''))"

text \<open>
  Lines 158 to 161. The function has no \<^verbatim>\<open>else\<close>: without the cookie it runs off its
  end and returns \<^verbatim>\<open>None\<close>.
\<close>

definition get_token :: "request \<Rightarrow> exn + pyret" where
  "get_token request =
     (let ret = (case cookies request COOKIE_NAME of
                   Some v \<Rightarrow> PyDict [''token'' \<mapsto> v]
                 | None \<Rightarrow> PyNone)
      in response_model_AccessToken ret)"

definition validate_token :: "globals \<Rightarrow> string \<Rightarrow> response \<Rightarrow> exn + (pyret \<times> response)" where
  "validate_token g access_token response =
     (case jws_verify g access_token (SECRET_KEY g) ALGORITHM of
        Inr payload \<Rightarrow> Inr (PyBytes payload, response)
      | Inl e \<Rightarrow>
          if e = JWSError
          then Inr (PyDict [''detail'' \<mapsto> ''Not a good token''],
                    response\<lparr>status_code := Some 422\<rparr>)
          else Inl e)"

definition logout :: "request \<Rightarrow> response \<Rightarrow> exn + (pyret \<times> response)" where
  "logout request response =
     (let hs = headers request;
          local = (case map_of hs ''origin'' of
                     None \<Rightarrow> False
                   | Some origin \<Rightarrow> str_contains ''localhost'' origin);
          samesite = (if local then ''lax'' else ''none'');
          secure = (if local then False else True)
      in Inr (PyNone, delete_cookie response COOKIE_NAME True samesite secure))"

section \<open>A concrete store, hasher and token library\<close>

text \<open>
  Small collaborators on which the theorems are instantiated. The store holds one user;
  the hasher prefixes the password; a token is the secret, a dot and the subject (with an
  empty subject the payload has no \<^verbatim>\<open>sub\<close>), and the decoder rejects everything else,
  raising \<open>AttributeError\<close> when handed \<^verbatim>\<open>None\<close>.
\<close>

definition alice :: row where
  "alice = (1, ''alice'', ''h:wonderland'', ''alice@example.org'')"

definition demo_repo :: UsersQueries where
  "demo_repo = \<lparr>get_user = (\<lambda>u. if u = JStr ''alice'' then Some alice else None)\<rparr>"

definition demo_globals :: globals where
  "demo_globals =
     \<lparr>SECRET_KEY = ''s3'',
      pwd_context_verify = (\<lambda>plain hashed. Inr (hashed = ''h:'' @ plain)),
      jwt_encode = (\<lambda>c key alg.
         case c ''sub'' of Some (JStr s) \<Rightarrow> Inr (key @ ''.'' @ s) | _ \<Rightarrow> Inl JWTError),
      jwt_decode = (\<lambda>t key algs.
         case t of
           None \<Rightarrow> Inl AttributeError
         | Some s \<Rightarrow>
             if prefix (key @ ''.'') s \<and> ''HS256'' \<in> set algs
             then (if drop (length key + 1) s = [] then Inr Map.empty
                   else Inr [''sub'' \<mapsto> JStr (drop (length key + 1) s)])
             else Inl JWTError),
      jws_verify = (\<lambda>s key alg.
         if prefix (key @ ''.'') s then Inr (drop (length key + 1) s) else Inl JWSError)\<rparr>"

text \<open>
  A hasher that, like the bcrypt scheme of \<^verbatim>\<open>pwd_context\<close>, refuses a password with a
  NUL character by raising instead of answering.
\<close>

definition strict_globals :: globals where
  "strict_globals =
     demo_globals\<lparr>pwd_context_verify := (\<lambda>plain hashed.
        if CHR 0x00 \<in> set plain then Inl (OtherError ''PasswordValueError'')
        else Inr (hashed = ''h:'' @ plain))\<rparr>"

text \<open>
  A token library whose tokens carry their algorithm, in three segments
  \<^verbatim>\<open>alg.sub.signature\<close>, and whose signature check takes its steps in the order of the
  library behind \<^verbatim>\<open>jwt\<close> and \<^verbatim>\<open>jws\<close>: the algorithm must be named; it must be
  \<^verbatim>\<open>in\<close> the allowed algorithms, or \<open>JWSError\<close>; a key is built for it, which raises
  a key error, not a \<open>JWSError\<close>, for a name that is no algorithm; the signature must
  match, or \<open>JWSError\<close>. \<^verbatim>\<open>jwt.decode\<close> turns a \<open>JWSError\<close> into a \<open>JWTError\<close>.
  The test \<^verbatim>\<open>alg in algorithms\<close> is membership when \<^verbatim>\<open>algorithms\<close> is a list and
  a substring test when it is a string.
\<close>

fun split_on :: "char \<Rightarrow> string \<Rightarrow> string list" where
  "split_on c [] = [[]]"
| "split_on c (x # xs) =
     (if x = c then [] # split_on c xs
      else (case split_on c xs of [] \<Rightarrow> [[x]] | w # ws \<Rightarrow> (x # w) # ws))"

definition verify_signature :: "string \<Rightarrow> bool \<Rightarrow> string \<Rightarrow> string \<Rightarrow> exn + unit" where
  "verify_signature alg allowed key signature =
     (if alg = [] then Inl JWSError
      else if \<not> allowed then Inl JWSError
      else if alg \<notin> set [''HS256'', ''HS384'', ''HS512''] then Inl (OtherError ''JWKError'')
      else if signature \<noteq> key then Inl JWSError
      else Inr ())"

definition segment_globals :: globals where
  "segment_globals =
     \<lparr>SECRET_KEY = ''s3'',
      pwd_context_verify = (\<lambda>plain hashed. Inr (hashed = ''h:'' @ plain)),
      jwt_encode = (\<lambda>c key alg.
         case c ''sub'' of
           Some (JStr s) \<Rightarrow> Inr (alg @ ''.'' @ s @ ''.'' @ key)
         | _ \<Rightarrow> Inl JWTError),
      jwt_decode = (\<lambda>t key algs.
         case t of
           None \<Rightarrow> Inl AttributeError
         | Some s \<Rightarrow>
             (case split_on CHR ''.'' s of
                [alg, sub, signature] \<Rightarrow>
                  (case verify_signature alg (alg \<in> set algs) key signature of
                     Inl e \<Rightarrow> if e = JWSError then Inl JWTError else Inl e
                   | Inr u \<Rightarrow> Inr [''sub'' \<mapsto> JStr sub])
              | _ \<Rightarrow> Inl JWTError)),
      jws_verify = (\<lambda>s key algorithms.
         case split_on CHR ''.'' s of
           [alg, sub, signature] \<Rightarrow>
             (case verify_signature alg (str_contains alg algorithms) key signature of
                Inl e \<Rightarrow> Inl e
              | Inr u \<Rightarrow> Inr sub)
         | _ \<Rightarrow> Inl JWSError)\<rparr>"

definition demo_request :: "string option \<Rightarrow> request" where
  "demo_request origin =
     \<lparr>headers = (''host'', ''api.example.org'') #
                 (case origin of None \<Rightarrow> [] | Some v \<Rightarrow> [(''origin'', v)]),
      cookies = Map.empty\<rparr>"

definition fresh_response :: response where
  "fresh_response = \<lparr>status_code = None, cookie_calls = []\<rparr>"

section \<open>The client's cookie jar\<close>

text \<open>
  The module keeps no session state: what login and logout change is the cookie jar of
  the client, through the cookie calls recorded on the response. A client that honours
  them stores the value of a \<^verbatim>\<open>set_cookie\<close> under its key and drops the key of a
  \<^verbatim>\<open>delete_cookie\<close>. \<open>logout_round\<close> is one logout seen from the client: it sends
  its jar as the request's cookies and applies the calls of the response to the jar.
\<close>

fun apply_cookie_call :: "cookie_call \<Rightarrow> (string \<rightharpoonup> string) \<Rightarrow> (string \<rightharpoonup> string)" where
  "apply_cookie_call (SetCookie k v h ss sec) jar = jar(k \<mapsto> v)"
| "apply_cookie_call (DeleteCookie k h ss sec) jar = jar(k := None)"

definition logout_round :: "(string \<times> string) list \<Rightarrow> (string \<rightharpoonup> string) \<Rightarrow> (string \<rightharpoonup> string)" where
  "logout_round hs jar =
     (case logout \<lparr>headers = hs, cookies = jar\<rparr> fresh_response of
        Inl e \<Rightarrow> jar
      | Inr (body, r) \<Rightarrow> fold apply_cookie_call (cookie_calls r) jar)"

section \<open>Credential verification\<close>

text \<open>
  C4, as the code has it. \<^verbatim>\<open>authenticate_user\<close> returns \<^verbatim>\<open>False\<close> when the store
  has no user of that name. When the store has one, the outcome is the hasher's, on the
  password and the stored hash (field 2 of the row): the row of that user exactly when the
  hasher answers true, \<^verbatim>\<open>False\<close> exactly when it answers false, and an exception
  exactly when the hasher raises it. The function has no handler of its own, so a
  password the hasher refuses to judge is neither accepted nor answered with
  \<^verbatim>\<open>False\<close>. No other row than the one the store returned is ever returned.
\<close>

theorem authenticate_user_spec:
  "(get_user repo (JStr u) = None \<longrightarrow> authenticate_user g repo u p = Inr AuthFalse) \<and>
   (\<forall>user. get_user repo (JStr u) = Some user \<longrightarrow>
      (authenticate_user g repo u p = Inr (AuthUser user) \<longleftrightarrow>
         pwd_context_verify g p (row2 user) = Inr True) \<and>
      (authenticate_user g repo u p = Inr AuthFalse \<longleftrightarrow>
         pwd_context_verify g p (row2 user) = Inr False) \<and>
      (\<forall>e. authenticate_user g repo u p = Inl e \<longleftrightarrow>
         pwd_context_verify g p (row2 user) = Inl e) \<and>
      (\<forall>user'. authenticate_user g repo u p = Inr (AuthUser user') \<longrightarrow> user' = user))"
  by (auto simp: authenticate_user_def verify_password_def split: sum.splits)

theorem authenticate_user_spec_witness:
  "get_user demo_repo (JStr ''bob'') = None \<and>
   authenticate_user demo_globals demo_repo ''bob'' ''wonderland'' = Inr AuthFalse \<and>
   get_user demo_repo (JStr ''alice'') = Some alice \<and>
   pwd_context_verify demo_globals ''wonderland'' (row2 alice) = Inr True \<and>
   authenticate_user demo_globals demo_repo ''alice'' ''wonderland'' = Inr (AuthUser alice) \<and>
   pwd_context_verify demo_globals ''queen'' (row2 alice) = Inr False \<and>
   authenticate_user demo_globals demo_repo ''alice'' ''queen'' = Inr AuthFalse \<and>
   pwd_context_verify strict_globals [CHR 0x00] (row2 alice) = Inl (OtherError ''PasswordValueError'') \<and>
   authenticate_user strict_globals demo_repo ''alice'' [CHR 0x00] = Inl (OtherError ''PasswordValueError'')"
proof -
  have absent: "get_user demo_repo (JStr ''bob'') = None"
    by (simp add: demo_repo_def)
  have present: "get_user demo_repo (JStr ''alice'') = Some alice"
    by (simp add: demo_repo_def)
  have good: "pwd_context_verify demo_globals ''wonderland'' (row2 alice) = Inr True"
    by (simp add: demo_globals_def alice_def)
  have bad: "pwd_context_verify demo_globals ''queen'' (row2 alice) = Inr False"
    by (simp add: demo_globals_def alice_def)
  note bob = authenticate_user_spec [where repo = demo_repo and u = "''bob''"
      and g = demo_globals and p = "''wonderland''"]
  note ok = authenticate_user_spec [where repo = demo_repo and u = "''alice''"
      and g = demo_globals and p = "''wonderland''"]
  note ko = authenticate_user_spec [where repo = demo_repo and u = "''alice''"
      and g = demo_globals and p = "''queen''"]
  from bob absent
  have 1: "authenticate_user demo_globals demo_repo ''bob'' ''wonderland'' = Inr AuthFalse"
    by blast
  from ok present good
  have 2: "authenticate_user demo_globals demo_repo ''alice'' ''wonderland'' = Inr (AuthUser alice)"
    by blast
  from ko present bad
  have 3: "authenticate_user demo_globals demo_repo ''alice'' ''queen'' = Inr AuthFalse"
    by blast
  have refused: "pwd_context_verify strict_globals [CHR 0x00] (row2 alice)
      = Inl (OtherError ''PasswordValueError'')"
    by (simp add: strict_globals_def)
  note nul = authenticate_user_spec [where repo = demo_repo and u = "''alice''"
      and g = strict_globals and p = "[CHR 0x00]"]
  from nul present refused
  have 4: "authenticate_user strict_globals demo_repo ''alice'' [CHR 0x00]
      = Inl (OtherError ''PasswordValueError'')"
    by blast
  from absent present good bad refused 1 2 3 4 show ?thesis by blast
qed

text \<open>
  The claim as written fails where the hasher raises. The user exists and the password,
  a single NUL character, does not verify against the stored hash: the hasher does not
  answer true. The function does not return \<^verbatim>\<open>False\<close>; the hasher's exception comes out
  of it.
\<close>

theorem authenticate_user_raises_with_hasher:
  "get_user demo_repo (JStr ''alice'') = Some alice \<and>
   pwd_context_verify strict_globals [CHR 0x00] (row2 alice) \<noteq> Inr True \<and>
   authenticate_user strict_globals demo_repo ''alice'' [CHR 0x00] \<noteq> Inr AuthFalse \<and>
   authenticate_user strict_globals demo_repo ''alice'' [CHR 0x00]
     = Inl (OtherError ''PasswordValueError'')"
  by (simp add: authenticate_user_def verify_password_def strict_globals_def demo_repo_def)

section \<open>Resolving the current user\<close>

subsection \<open>Which token is decoded\<close>

lemma select_token_header: "h \<noteq> [] \<Longrightarrow> select_token (Some h) c = Some h"
  by (simp add: select_token_def truthy_def)

lemma select_token_cases:
  "select_token b c = (if (b = None \<or> b = Some []) \<and> truthy c then c else b)"
  by (auto simp: select_token_def truthy_def split: option.splits)

subsection \<open>The two outcomes of decoding\<close>

lemma get_current_user_decode_error:
  "jwt_decode g (select_token b c) (SECRET_KEY g) [ALGORITHM] = Inl e \<Longrightarrow>
   get_current_user g repo b c =
     (if e = JWTError \<or> e = AttributeError then Inl credentials_exception else Inl e)"
  by (simp add: get_current_user_def)

lemma get_current_user_decoded:
  "jwt_decode g (select_token b c) (SECRET_KEY g) [ALGORITHM] = Inr payload \<Longrightarrow>
   get_current_user g repo b c =
     (if dict_get payload ''sub'' = JNull then Inl credentials_exception
      else case get_user repo (dict_get payload ''sub'') of
             None \<Rightarrow> Inl credentials_exception
           | Some user \<Rightarrow> Inr (row_to_user user))"
  by (simp add: get_current_user_def)

subsection \<open>The concrete token library at work\<close>

lemma demo_decode_alice:
  "jwt_decode demo_globals (Some ''s3.alice'') (SECRET_KEY demo_globals) [ALGORITHM]
     = Inr [''sub'' \<mapsto> JStr ''alice'']"
  by (simp add: demo_globals_def ALGORITHM_def)

lemma demo_decode_empty:
  "jwt_decode demo_globals (Some []) (SECRET_KEY demo_globals) [ALGORITHM] = Inl JWTError"
  by (simp add: demo_globals_def ALGORITHM_def)

lemma demo_decode_garbage:
  "jwt_decode demo_globals (Some ''garbage'') (SECRET_KEY demo_globals) [ALGORITHM] = Inl JWTError"
  by (simp add: demo_globals_def ALGORITHM_def)

lemma demo_decode_None:
  "jwt_decode demo_globals None (SECRET_KEY demo_globals) [ALGORITHM] = Inl AttributeError"
  by (simp add: demo_globals_def)

lemma demo_resolve_alice:
  assumes "select_token b c = Some ''s3.alice''"
  shows "get_current_user demo_globals demo_repo b c = Inr (row_to_user alice)"
proof -
  have "jwt_decode demo_globals (select_token b c) (SECRET_KEY demo_globals) [ALGORITHM]
          = Inr [''sub'' \<mapsto> JStr ''alice'']"
    using assms demo_decode_alice by simp
  then show ?thesis
    by (simp add: get_current_user_decoded dict_get_def demo_repo_def)
qed

subsection \<open>Precedence of the header token\<close>

text \<open>
  C1, as the code has it. A header token that is present and not the empty string is the
  token that is decoded, whatever the cookie holds: the outcome is the one the same
  request gets without a cookie, so a header token the decoder rejects is refused even
  beside a cookie token that would resolve. The cookie token is decoded only when the
  header token is absent or the empty string, and only when the cookie token itself is
  present and not empty.
\<close>

theorem header_token_precedence:
  "(h \<noteq> [] \<longrightarrow>
      select_token (Some h) cookie_token = Some h \<and>
      get_current_user g repo (Some h) cookie_token = get_current_user g repo (Some h) None \<and>
      (jwt_decode g (Some h) (SECRET_KEY g) [ALGORITHM] = Inl JWTError \<longrightarrow>
         get_current_user g repo (Some h) cookie_token = Inl credentials_exception)) \<and>
   (select_token bearer_token cookie_token \<noteq> bearer_token \<longrightarrow>
      (bearer_token = None \<or> bearer_token = Some []) \<and>
      cookie_token \<noteq> None \<and> cookie_token \<noteq> Some [] \<and>
      select_token bearer_token cookie_token = cookie_token)"
proof (intro conjI impI)
  assume h: "h \<noteq> []"
  show sel: "select_token (Some h) cookie_token = Some h"
    using h by (rule select_token_header)
  have "select_token (Some h) None = Some h"
    using h by (rule select_token_header)
  with sel show "get_current_user g repo (Some h) cookie_token = get_current_user g repo (Some h) None"
    by (simp add: get_current_user_def)
  assume "jwt_decode g (Some h) (SECRET_KEY g) [ALGORITHM] = Inl JWTError"
  with sel show "get_current_user g repo (Some h) cookie_token = Inl credentials_exception"
    by (simp add: get_current_user_decode_error)
next
  assume "select_token bearer_token cookie_token \<noteq> bearer_token"
  then have *: "(bearer_token = None \<or> bearer_token = Some []) \<and> truthy cookie_token"
    and **: "select_token bearer_token cookie_token = cookie_token"
    by (auto simp: select_token_cases split: if_splits)
  from * show "bearer_token = None \<or> bearer_token = Some []" by simp
  from * show "cookie_token \<noteq> None" by (auto simp: truthy_def split: option.splits)
  from * show "cookie_token \<noteq> Some []" by (auto simp: truthy_def split: option.splits)
  from ** show "select_token bearer_token cookie_token = cookie_token" .
qed

theorem header_token_precedence_witness:
  "''garbage'' \<noteq> [] \<and>
   jwt_decode demo_globals (Some ''garbage'') (SECRET_KEY demo_globals) [ALGORITHM] = Inl JWTError \<and>
   select_token (Some ''garbage'') (Some ''s3.alice'') = Some ''garbage'' \<and>
   get_current_user demo_globals demo_repo (Some ''garbage'') (Some ''s3.alice'') =
     get_current_user demo_globals demo_repo (Some ''garbage'') None \<and>
   get_current_user demo_globals demo_repo (Some ''garbage'') (Some ''s3.alice'') =
     Inl credentials_exception \<and>
   select_token None (Some ''s3.alice'') \<noteq> None \<and>
   select_token None (Some ''s3.alice'') = Some ''s3.alice''"
proof -
  have ne: "''garbage'' \<noteq> []" by simp
  have diff: "select_token None (Some ''s3.alice'') \<noteq> None"
    by (simp add: select_token_def truthy_def)
  note a = header_token_precedence [where h = "''garbage''" and cookie_token = "Some ''s3.alice''"
      and g = demo_globals and repo = demo_repo and bearer_token = None]
  from a ne demo_decode_garbage diff show ?thesis by blast
qed

text \<open>
  The claim as written fails for the header token a request with the header
  \<^verbatim>\<open>Authorization: Bearer\<close> carries, the empty string. It is present and the decoder
  rejects it: alone it is refused. Beside a cookie token that resolves, the cookie token
  is decoded and the user is returned.
\<close>

theorem empty_header_token_yields_to_cookie:
  "jwt_decode demo_globals (Some []) (SECRET_KEY demo_globals) [ALGORITHM] = Inl JWTError \<and>
   get_current_user demo_globals demo_repo (Some []) None = Inl credentials_exception \<and>
   get_current_user demo_globals demo_repo (Some []) (Some ''s3.alice'') = Inr (row_to_user alice)"
proof (intro conjI)
  show "jwt_decode demo_globals (Some []) (SECRET_KEY demo_globals) [ALGORITHM] = Inl JWTError"
    by (rule demo_decode_empty)
  have "select_token (Some []) None = Some []"
    by (simp add: select_token_def truthy_def)
  then show "get_current_user demo_globals demo_repo (Some []) None = Inl credentials_exception"
    using demo_decode_empty by (simp add: get_current_user_decode_error)
  have "select_token (Some []) (Some ''s3.alice'') = Some ''s3.alice''"
    by (simp add: select_token_def truthy_def)
  then show "get_current_user demo_globals demo_repo (Some []) (Some ''s3.alice'') = Inr (row_to_user alice)"
    by (rule demo_resolve_alice)
qed

subsection \<open>One failure for every way of failing\<close>

text \<open>
  C2. Every way in which resolution fails gives the same exception, the
  \<open>credentials_exception\<close> of status 401 with the detail
  \<^verbatim>\<open>Invalid authentication credentials\<close> and the header \<^verbatim>\<open>WWW-Authenticate: Bearer\<close>:
  \<^item> no token at all, where the decoder is handed \<^verbatim>\<open>None\<close> and raises \<open>AttributeError\<close>;
  \<^item> a token the decoder rejects with \<open>JWTError\<close>, which is how the token library reports
    a corrupt token, a bad signature, an algorithm outside the allowed list and a claim
    of the wrong type;
  \<^item> a payload without \<^verbatim>\<open>sub\<close>, or with a null \<^verbatim>\<open>sub\<close>;
  \<^item> a subject the store does not know.
  The handler raises no other exception of its own: whatever else comes out of it is an
  exception of the decoder that is neither \<open>JWTError\<close> nor \<open>AttributeError\<close>.
\<close>

theorem get_current_user_failures_uniform:
  "(bearer_token = None \<and> cookie_token = None \<and>
      jwt_decode g None (SECRET_KEY g) [ALGORITHM] = Inl AttributeError \<longrightarrow>
        get_current_user g repo bearer_token cookie_token = Inl credentials_exception) \<and>
   (jwt_decode g (select_token bearer_token cookie_token) (SECRET_KEY g) [ALGORITHM] = Inl JWTError \<longrightarrow>
        get_current_user g repo bearer_token cookie_token = Inl credentials_exception) \<and>
   (jwt_decode g (select_token bearer_token cookie_token) (SECRET_KEY g) [ALGORITHM] = Inl AttributeError \<longrightarrow>
        get_current_user g repo bearer_token cookie_token = Inl credentials_exception) \<and>
   (\<forall>payload.
      jwt_decode g (select_token bearer_token cookie_token) (SECRET_KEY g) [ALGORITHM] = Inr payload \<longrightarrow>
        (payload ''sub'' = None \<longrightarrow>
           get_current_user g repo bearer_token cookie_token = Inl credentials_exception) \<and>
        (payload ''sub'' = Some JNull \<longrightarrow>
           get_current_user g repo bearer_token cookie_token = Inl credentials_exception) \<and>
        (get_user repo (dict_get payload ''sub'') = None \<longrightarrow>
           get_current_user g repo bearer_token cookie_token = Inl credentials_exception)) \<and>
   (\<forall>e. get_current_user g repo bearer_token cookie_token = Inl e \<longrightarrow>
      e = credentials_exception \<or>
      (jwt_decode g (select_token bearer_token cookie_token) (SECRET_KEY g) [ALGORITHM] = Inl e \<and>
       e \<noteq> JWTError \<and> e \<noteq> AttributeError)) \<and>
   credentials_exception =
     HTTPException 401 ''Invalid authentication credentials'' [(''WWW-Authenticate'', ''Bearer'')]"
proof (intro conjI allI impI)
  assume "bearer_token = None \<and> cookie_token = None \<and>
      jwt_decode g None (SECRET_KEY g) [ALGORITHM] = Inl AttributeError"
  moreover have "select_token None None = None"
    by (simp add: select_token_def truthy_def)
  ultimately show "get_current_user g repo bearer_token cookie_token = Inl credentials_exception"
    by (simp add: get_current_user_decode_error)
next
  assume "jwt_decode g (select_token bearer_token cookie_token) (SECRET_KEY g) [ALGORITHM] = Inl JWTError"
  then show "get_current_user g repo bearer_token cookie_token = Inl credentials_exception"
    by (simp add: get_current_user_decode_error)
next
  assume "jwt_decode g (select_token bearer_token cookie_token) (SECRET_KEY g) [ALGORITHM] = Inl AttributeError"
  then show "get_current_user g repo bearer_token cookie_token = Inl credentials_exception"
    by (simp add: get_current_user_decode_error)
next
  fix payload
  assume d: "jwt_decode g (select_token bearer_token cookie_token) (SECRET_KEY g) [ALGORITHM] = Inr payload"
  {
    assume "payload ''sub'' = None"
    then show "get_current_user g repo bearer_token cookie_token = Inl credentials_exception"
      by (simp add: get_current_user_decoded [OF d] dict_get_def)
  }
  {
    assume "payload ''sub'' = Some JNull"
    then show "get_current_user g repo bearer_token cookie_token = Inl credentials_exception"
      by (simp add: get_current_user_decoded [OF d] dict_get_def)
  }
  {
    assume "get_user repo (dict_get payload ''sub'') = None"
    then show "get_current_user g repo bearer_token cookie_token = Inl credentials_exception"
      by (simp add: get_current_user_decoded [OF d])
  }
next
  fix e
  assume r: "get_current_user g repo bearer_token cookie_token = Inl e"
  show "e = credentials_exception \<or>
      (jwt_decode g (select_token bearer_token cookie_token) (SECRET_KEY g) [ALGORITHM] = Inl e \<and>
       e \<noteq> JWTError \<and> e \<noteq> AttributeError)"
  proof (cases "jwt_decode g (select_token bearer_token cookie_token) (SECRET_KEY g) [ALGORITHM]")
    case (Inl x)
    with r show ?thesis
      by (auto simp: get_current_user_decode_error [OF Inl] split: if_splits)
  next
    case (Inr payload)
    with r show ?thesis
      by (auto simp: get_current_user_decoded [OF Inr] split: if_splits option.splits)
  qed
next
  show "credentials_exception =
     HTTPException 401 ''Invalid authentication credentials'' [(''WWW-Authenticate'', ''Bearer'')]"
    by (simp add: credentials_exception_def)
qed

lemma demo_decode_no_sub:
  "jwt_decode demo_globals (Some ''s3.'') (SECRET_KEY demo_globals) [ALGORITHM] = Inr Map.empty"
  by (simp add: demo_globals_def ALGORITHM_def)

lemma demo_decode_bob:
  "jwt_decode demo_globals (Some ''s3.bob'') (SECRET_KEY demo_globals) [ALGORITHM]
     = Inr [''sub'' \<mapsto> JStr ''bob'']"
  by (simp add: demo_globals_def ALGORITHM_def)

theorem get_current_user_failures_uniform_witness:
  "jwt_decode demo_globals None (SECRET_KEY demo_globals) [ALGORITHM] = Inl AttributeError \<and>
   get_current_user demo_globals demo_repo None None = Inl credentials_exception \<and>
   jwt_decode demo_globals (select_token (Some ''garbage'') None) (SECRET_KEY demo_globals) [ALGORITHM]
     = Inl JWTError \<and>
   get_current_user demo_globals demo_repo (Some ''garbage'') None = Inl credentials_exception \<and>
   jwt_decode demo_globals (select_token None (Some ''s3.'')) (SECRET_KEY demo_globals) [ALGORITHM]
     = Inr Map.empty \<and>
   get_current_user demo_globals demo_repo None (Some ''s3.'') = Inl credentials_exception \<and>
   jwt_decode demo_globals (select_token (Some ''s3.bob'') None) (SECRET_KEY demo_globals) [ALGORITHM]
     = Inr [''sub'' \<mapsto> JStr ''bob''] \<and>
   get_user demo_repo (dict_get [''sub'' \<mapsto> JStr ''bob''] ''sub'') = None \<and>
   get_current_user demo_globals demo_repo (Some ''s3.bob'') None = Inl credentials_exception"
proof -
  have s1: "select_token (Some ''garbage'') None = Some ''garbage''"
    and s2: "select_token None (Some ''s3.'') = Some ''s3.''"
    and s3: "select_token (Some ''s3.bob'') None = Some ''s3.bob''"
    by (simp_all add: select_token_def truthy_def)
  have d1: "jwt_decode demo_globals (select_token (Some ''garbage'') None) (SECRET_KEY demo_globals) [ALGORITHM]
     = Inl JWTError"
    unfolding s1 by (rule demo_decode_garbage)
  have d2: "jwt_decode demo_globals (select_token None (Some ''s3.'')) (SECRET_KEY demo_globals) [ALGORITHM]
     = Inr Map.empty"
    unfolding s2 by (rule demo_decode_no_sub)
  have d3: "jwt_decode demo_globals (select_token (Some ''s3.bob'') None) (SECRET_KEY demo_globals) [ALGORITHM]
     = Inr [''sub'' \<mapsto> JStr ''bob'']"
    unfolding s3 by (rule demo_decode_bob)
  have nosub: "(Map.empty :: claims) ''sub'' = None" by simp
  have nobob: "get_user demo_repo (dict_get [''sub'' \<mapsto> JStr ''bob''] ''sub'') = None"
    by (simp add: demo_repo_def dict_get_def)
  note t0 = get_current_user_failures_uniform [where g = demo_globals and repo = demo_repo
      and bearer_token = None and cookie_token = None]
  note t1 = get_current_user_failures_uniform [where g = demo_globals and repo = demo_repo
      and bearer_token = "Some ''garbage''" and cookie_token = None]
  note t2 = get_current_user_failures_uniform [where g = demo_globals and repo = demo_repo
      and bearer_token = None and cookie_token = "Some ''s3.''"]
  note t3 = get_current_user_failures_uniform [where g = demo_globals and repo = demo_repo
      and bearer_token = "Some ''s3.bob''" and cookie_token = None]
  from t0 demo_decode_None
  have r0: "get_current_user demo_globals demo_repo None None = Inl credentials_exception"
    by blast
  from t1 d1
  have r1: "get_current_user demo_globals demo_repo (Some ''garbage'') None = Inl credentials_exception"
    by blast
  from t2 d2 nosub
  have r2: "get_current_user demo_globals demo_repo None (Some ''s3.'') = Inl credentials_exception"
    by blast
  from t3 d3 nobob
  have r3: "get_current_user demo_globals demo_repo (Some ''s3.bob'') None = Inl credentials_exception"
    by blast
  from demo_decode_None r0 d1 r1 d2 r2 d3 nobob r3 show ?thesis by blast
qed

section \<open>Session endpoints\<close>

subsection \<open>Substring test and the origin header\<close>

lemma str_contains_iff: "str_contains n h \<longleftrightarrow> (\<exists>ps ss. h = ps @ n @ ss)"
proof (induction h)
  case Nil
  then show ?case by auto
next
  case (Cons c cs)
  have "(\<exists>ps ss. c # cs = ps @ n @ ss) \<longleftrightarrow> prefix n (c # cs) \<or> (\<exists>ps ss. cs = ps @ n @ ss)"
    using sublist_Cons_right [of n c cs] by (simp add: sublist_def)
  with Cons show ?case by simp
qed

lemma login_success:
  assumes "login_for_access_token g response request form repo = Inr (body, response')"
  shows "\<exists>user access_token.
           authenticate_user g repo (username form) (password form) = Inr (AuthUser user) \<and>
           create_access_token g [''sub'' \<mapsto> JStr (row1 user)] = Inr access_token \<and>
           body = PyDict [''access_token'' \<mapsto> access_token, ''token_type'' \<mapsto> ''bearer''] \<and>
           response' = set_cookie response COOKIE_NAME access_token True
             (if (case map_of (headers request) ''origin'' of None \<Rightarrow> False
                  | Some origin \<Rightarrow> str_contains ''localhost'' origin) then ''lax'' else ''none'')
             (\<not> (case map_of (headers request) ''origin'' of None \<Rightarrow> False
                  | Some origin \<Rightarrow> str_contains ''localhost'' origin))"
  using assms
  by (auto simp: login_for_access_token_def Let_def split: sum.splits auth_result.splits)

lemma logout_result:
  "logout request response =
     Inr (PyNone, delete_cookie response COOKIE_NAME True
             (if (case map_of (headers request) ''origin'' of None \<Rightarrow> False
                  | Some origin \<Rightarrow> str_contains ''localhost'' origin) then ''lax'' else ''none'')
             (\<not> (case map_of (headers request) ''origin'' of None \<Rightarrow> False
                  | Some origin \<Rightarrow> str_contains ''localhost'' origin)))"
  by (simp add: logout_def Let_def)

lemma cookie_calls_set_cookie:
  "cookie_calls (set_cookie r k v h ss sec) = cookie_calls r @ [SetCookie k v h ss sec]"
  by (simp add: set_cookie_def)

lemma cookie_calls_delete_cookie:
  "cookie_calls (delete_cookie r k h ss sec) = cookie_calls r @ [DeleteCookie k h ss sec]"
  by (simp add: delete_cookie_def)

subsection \<open>Login\<close>

text \<open>
  C5. A login that succeeds records exactly one \<^verbatim>\<open>set_cookie\<close> call, for the cookie
  \<^verbatim>\<open>jwtdown_access_token\<close>, whose value is the token of the response body. If the request
  has an \<^verbatim>\<open>origin\<close> header and its value contains \<^verbatim>\<open>localhost\<close>, the call has
  \<^verbatim>\<open>samesite="lax"\<close> and \<^verbatim>\<open>secure=False\<close>. In the two other cases, an origin without
  \<^verbatim>\<open>localhost\<close> and no origin header at all, it has \<^verbatim>\<open>samesite="none"\<close> and
  \<^verbatim>\<open>secure=True\<close>.
\<close>

theorem login_cookie_attributes:
  assumes "login_for_access_token g response request form repo = Inr (body, response')"
  shows "\<exists>access_token h samesite secure.
           body = PyDict [''access_token'' \<mapsto> access_token, ''token_type'' \<mapsto> ''bearer''] \<and>
           cookie_calls response' =
             cookie_calls response @ [SetCookie COOKIE_NAME access_token h samesite secure] \<and>
           (\<forall>origin. map_of (headers request) ''origin'' = Some origin \<and>
                     str_contains ''localhost'' origin \<longrightarrow> samesite = ''lax'' \<and> secure = False) \<and>
           (\<forall>origin. map_of (headers request) ''origin'' = Some origin \<and>
                     \<not> str_contains ''localhost'' origin \<longrightarrow> samesite = ''none'' \<and> secure = True) \<and>
           (map_of (headers request) ''origin'' = None \<longrightarrow> samesite = ''none'' \<and> secure = True)"
proof -
  from login_success [OF assms] obtain user access_token where
    b: "body = PyDict [''access_token'' \<mapsto> access_token, ''token_type'' \<mapsto> ''bearer'']" and
    r: "response' = set_cookie response COOKIE_NAME access_token True
             (if (case map_of (headers request) ''origin'' of None \<Rightarrow> False
                  | Some origin \<Rightarrow> str_contains ''localhost'' origin) then ''lax'' else ''none'')
             (\<not> (case map_of (headers request) ''origin'' of None \<Rightarrow> False
                  | Some origin \<Rightarrow> str_contains ''localhost'' origin))"
    by blast
  show ?thesis
    apply (rule exI [where x = access_token])
    apply (rule exI [where x = True])
    apply (rule exI [where x = "if (case map_of (headers request) ''origin'' of None \<Rightarrow> False
                  | Some origin \<Rightarrow> str_contains ''localhost'' origin) then ''lax'' else ''none''"])
    apply (rule exI [where x = "\<not> (case map_of (headers request) ''origin'' of None \<Rightarrow> False
                  | Some origin \<Rightarrow> str_contains ''localhost'' origin)"])
    using b r by (simp add: cookie_calls_set_cookie)
qed

lemma demo_login:
  "login_for_access_token demo_globals fresh_response (demo_request origin)
      \<lparr>username = ''alice'', password = ''wonderland''\<rparr> demo_repo =
   Inr (PyDict [''access_token'' \<mapsto> ''s3.alice'', ''token_type'' \<mapsto> ''bearer''],
        set_cookie fresh_response COOKIE_NAME ''s3.alice'' True
          (if (case origin of None \<Rightarrow> False | Some v \<Rightarrow> str_contains ''localhost'' v)
           then ''lax'' else ''none'')
          (\<not> (case origin of None \<Rightarrow> False | Some v \<Rightarrow> str_contains ''localhost'' v)))"
  by (cases origin)
     (simp_all add: login_for_access_token_def authenticate_user_def verify_password_def
        create_access_token_def dict_copy_def demo_globals_def demo_repo_def alice_def
        demo_request_def Let_def)

lemma demo_origin:
  "map_of (headers (demo_request origin)) ''origin'' = origin"
  by (cases origin) (simp_all add: demo_request_def)

lemma localhost_origin: "str_contains ''localhost'' ''http://localhost:3000''"
  by simp

lemma remote_origin: "\<not> str_contains ''localhost'' ''https://app.example.org''"
  by simp

theorem login_cookie_attributes_witness:
  "(\<exists>body r. login_for_access_token demo_globals fresh_response
       (demo_request (Some ''http://localhost:3000''))
       \<lparr>username = ''alice'', password = ''wonderland''\<rparr> demo_repo = Inr (body, r) \<and>
     (\<exists>tok h. cookie_calls r = [SetCookie COOKIE_NAME tok h ''lax'' False])) \<and>
   (\<exists>body r. login_for_access_token demo_globals fresh_response
       (demo_request (Some ''https://app.example.org''))
       \<lparr>username = ''alice'', password = ''wonderland''\<rparr> demo_repo = Inr (body, r) \<and>
     (\<exists>tok h. cookie_calls r = [SetCookie COOKIE_NAME tok h ''none'' True])) \<and>
   (\<exists>body r. login_for_access_token demo_globals fresh_response
       (demo_request None)
       \<lparr>username = ''alice'', password = ''wonderland''\<rparr> demo_repo = Inr (body, r) \<and>
     (\<exists>tok h. cookie_calls r = [SetCookie COOKIE_NAME tok h ''none'' True]))"
proof (intro conjI)
  have fresh: "cookie_calls fresh_response = []"
    by (simp add: fresh_response_def)
  {
    fix origin
    obtain body r where l: "login_for_access_token demo_globals fresh_response (demo_request origin)
      \<lparr>username = ''alice'', password = ''wonderland''\<rparr> demo_repo = Inr (body, r)"
      using demo_login [of origin] by blast
    from login_cookie_attributes [OF l]
    have "\<exists>body r. login_for_access_token demo_globals fresh_response (demo_request origin)
        \<lparr>username = ''alice'', password = ''wonderland''\<rparr> demo_repo = Inr (body, r) \<and>
        (\<exists>tok h samesite secure. cookie_calls r = [SetCookie COOKIE_NAME tok h samesite secure] \<and>
           (\<forall>v. origin = Some v \<and> str_contains ''localhost'' v \<longrightarrow> samesite = ''lax'' \<and> secure = False) \<and>
           (\<forall>v. origin = Some v \<and> \<not> str_contains ''localhost'' v \<longrightarrow> samesite = ''none'' \<and> secure = True) \<and>
           (origin = None \<longrightarrow> samesite = ''none'' \<and> secure = True))"
      using l unfolding demo_origin fresh by (metis append_Nil)
  }
  note at = this
  from at [of "Some ''http://localhost:3000''"] localhost_origin
  show "\<exists>body r. login_for_access_token demo_globals fresh_response
       (demo_request (Some ''http://localhost:3000''))
       \<lparr>username = ''alice'', password = ''wonderland''\<rparr> demo_repo = Inr (body, r) \<and>
     (\<exists>tok h. cookie_calls r = [SetCookie COOKIE_NAME tok h ''lax'' False])"
    by (metis option.inject)
  from at [of "Some ''https://app.example.org''"] remote_origin
  show "\<exists>body r. login_for_access_token demo_globals fresh_response
       (demo_request (Some ''https://app.example.org''))
       \<lparr>username = ''alice'', password = ''wonderland''\<rparr> demo_repo = Inr (body, r) \<and>
     (\<exists>tok h. cookie_calls r = [SetCookie COOKIE_NAME tok h ''none'' True])"
    by (metis option.inject)
  from at [of None]
  show "\<exists>body r. login_for_access_token demo_globals fresh_response
       (demo_request None)
       \<lparr>username = ''alice'', password = ''wonderland''\<rparr> demo_repo = Inr (body, r) \<and>
     (\<exists>tok h. cookie_calls r = [SetCookie COOKIE_NAME tok h ''none'' True])"
    by metis
qed

subsection \<open>Logout\<close>

lemma logout_ignores_cookies:
  "logout (request\<lparr>cookies := cs\<rparr>) response = logout request response"
  by (simp add: logout_def)

lemma logout_round_eq: "logout_round hs jar = jar(COOKIE_NAME := None)"
  by (simp add: logout_round_def logout_result cookie_calls_delete_cookie fresh_response_def)

text \<open>
  C9. Logout always returns, with nothing in the body and exactly one \<^verbatim>\<open>delete_cookie\<close>
  call recorded, for the cookie \<^verbatim>\<open>jwtdown_access_token\<close>. Its \<^verbatim>\<open>samesite\<close> and
  \<^verbatim>\<open>secure\<close> arguments follow the origin header as at login: \<^verbatim>\<open>lax\<close> and
  \<^verbatim>\<open>False\<close> when the origin contains \<^verbatim>\<open>localhost\<close>, \<^verbatim>\<open>none\<close> and \<^verbatim>\<open>True\<close>
  otherwise, and a login on the same request that succeeds passes the same two values
  to \<^verbatim>\<open>set_cookie\<close>. The cookies of the request play no part: the outcome is the same
  whatever they are. For the client, one logout leaves the jar without the cookie, and a
  second logout leaves the jar as the first did.
\<close>

theorem logout_clears_cookie:
  "\<exists>samesite secure.
     logout request response =
       Inr (PyNone,
            response\<lparr>cookie_calls :=
              cookie_calls response @ [DeleteCookie COOKIE_NAME True samesite secure]\<rparr>) \<and>
     (\<forall>origin. map_of (headers request) ''origin'' = Some origin \<and>
               str_contains ''localhost'' origin \<longrightarrow> samesite = ''lax'' \<and> secure = False) \<and>
     (\<forall>origin. map_of (headers request) ''origin'' = Some origin \<and>
               \<not> str_contains ''localhost'' origin \<longrightarrow> samesite = ''none'' \<and> secure = True) \<and>
     (map_of (headers request) ''origin'' = None \<longrightarrow> samesite = ''none'' \<and> secure = True) \<and>
     (\<forall>g form repo body response'.
        login_for_access_token g response request form repo = Inr (body, response') \<longrightarrow>
        (\<exists>access_token. cookie_calls response' =
           cookie_calls response @ [SetCookie COOKIE_NAME access_token True samesite secure])) \<and>
     (\<forall>cs. logout (request\<lparr>cookies := cs\<rparr>) response = logout request response) \<and>
     (\<forall>jar. logout_round (headers request) jar = jar(COOKIE_NAME := None)) \<and>
     (\<forall>jar. logout_round (headers request) (logout_round (headers request) jar) =
            logout_round (headers request) jar)"
proof -
  let ?local = "case map_of (headers request) ''origin'' of None \<Rightarrow> False
                | Some origin \<Rightarrow> str_contains ''localhost'' origin"
  let ?ss = "if ?local then ''lax'' else ''none''"
  let ?sec = "\<not> ?local"
  have out: "logout request response =
       Inr (PyNone,
            response\<lparr>cookie_calls := cookie_calls response @ [DeleteCookie COOKIE_NAME True ?ss ?sec]\<rparr>)"
    by (simp add: logout_result delete_cookie_def)
  have c1: "\<forall>origin. map_of (headers request) ''origin'' = Some origin \<and>
               str_contains ''localhost'' origin \<longrightarrow> ?ss = ''lax'' \<and> ?sec = False"
    by simp
  have c2: "\<forall>origin. map_of (headers request) ''origin'' = Some origin \<and>
               \<not> str_contains ''localhost'' origin \<longrightarrow> ?ss = ''none'' \<and> ?sec = True"
    by simp
  have c3: "map_of (headers request) ''origin'' = None \<longrightarrow> ?ss = ''none'' \<and> ?sec = True"
    by simp
  have same: "\<forall>g form repo body response'.
        login_for_access_token g response request form repo = Inr (body, response') \<longrightarrow>
        (\<exists>access_token. cookie_calls response' =
           cookie_calls response @ [SetCookie COOKIE_NAME access_token True ?ss ?sec])"
  proof (intro allI impI)
    fix g form repo body response'
    assume "login_for_access_token g response request form repo = Inr (body, response')"
    from login_success [OF this] obtain access_token where
      "response' = set_cookie response COOKIE_NAME access_token True ?ss ?sec"
      by blast
    then have "cookie_calls response' =
           cookie_calls response @ [SetCookie COOKIE_NAME access_token True ?ss ?sec]"
      by (simp only: cookie_calls_set_cookie)
    then show "\<exists>access_token. cookie_calls response' =
           cookie_calls response @ [SetCookie COOKIE_NAME access_token True ?ss ?sec]"
      by blast
  qed
  have indep: "\<forall>cs. logout (request\<lparr>cookies := cs\<rparr>) response = logout request response"
    by (simp add: logout_ignores_cookies)
  have jar: "\<forall>jar. logout_round (headers request) jar = jar(COOKIE_NAME := None)"
    by (simp add: logout_round_eq)
  have idem: "\<forall>jar. logout_round (headers request) (logout_round (headers request) jar) =
            logout_round (headers request) jar"
    by (simp add: logout_round_eq)
  show ?thesis
    apply (rule exI [where x = ?ss])
    apply (rule exI [where x = ?sec])
    apply (intro conjI)
           apply (rule out)
          apply (rule c1)
         apply (rule c2)
        apply (rule c3)
       apply (rule same)
      apply (rule indep)
     apply (rule jar)
    apply (rule idem)
    done
qed

theorem logout_clears_cookie_witness:
  "logout (demo_request (Some ''http://localhost:3000'')) fresh_response =
     Inr (PyNone, fresh_response\<lparr>cookie_calls := [DeleteCookie COOKIE_NAME True ''lax'' False]\<rparr>) \<and>
   (\<exists>body r. login_for_access_token demo_globals fresh_response
       (demo_request (Some ''http://localhost:3000''))
       \<lparr>username = ''alice'', password = ''wonderland''\<rparr> demo_repo = Inr (body, r) \<and>
      (\<exists>tok. cookie_calls r = [SetCookie COOKIE_NAME tok True ''lax'' False])) \<and>
   logout (demo_request (Some ''https://app.example.org'')) fresh_response =
     Inr (PyNone, fresh_response\<lparr>cookie_calls := [DeleteCookie COOKIE_NAME True ''none'' True]\<rparr>) \<and>
   logout (demo_request None) fresh_response =
     Inr (PyNone, fresh_response\<lparr>cookie_calls := [DeleteCookie COOKIE_NAME True ''none'' True]\<rparr>)"
proof -
  have fresh: "cookie_calls fresh_response = []"
    by (simp add: fresh_response_def)
  have 1: "logout (demo_request (Some ''http://localhost:3000'')) fresh_response =
       Inr (PyNone, fresh_response\<lparr>cookie_calls := [DeleteCookie COOKIE_NAME True ''lax'' False]\<rparr>) \<and>
     (\<exists>body r. login_for_access_token demo_globals fresh_response
       (demo_request (Some ''http://localhost:3000''))
       \<lparr>username = ''alice'', password = ''wonderland''\<rparr> demo_repo = Inr (body, r) \<and>
      (\<exists>tok. cookie_calls r = [SetCookie COOKIE_NAME tok True ''lax'' False]))"
    using logout_clears_cookie [where request = "demo_request (Some ''http://localhost:3000'')"
        and response = fresh_response, unfolded demo_origin fresh append_Nil]
  proof (elim exE conjE)
    fix samesite secure
    assume out: "logout (demo_request (Some ''http://localhost:3000'')) fresh_response =
        Inr (PyNone, fresh_response\<lparr>cookie_calls := [DeleteCookie COOKIE_NAME True samesite secure]\<rparr>)"
      and loc: "\<forall>origin. Some ''http://localhost:3000'' = Some origin \<and>
               str_contains ''localhost'' origin \<longrightarrow> samesite = ''lax'' \<and> secure = False"
      and same: "\<forall>g form repo body response'.
        login_for_access_token g fresh_response (demo_request (Some ''http://localhost:3000'')) form repo
          = Inr (body, response') \<longrightarrow>
        (\<exists>access_token. cookie_calls response' =
           [SetCookie COOKIE_NAME access_token True samesite secure])"
    from loc localhost_origin have v: "samesite = ''lax''" "secure = False"
      by simp_all
    obtain body r where l: "login_for_access_token demo_globals fresh_response
        (demo_request (Some ''http://localhost:3000''))
        \<lparr>username = ''alice'', password = ''wonderland''\<rparr> demo_repo = Inr (body, r)"
      using demo_login [of "Some ''http://localhost:3000''"] by blast
    from same [rule_format, OF l]
    have "\<exists>tok. cookie_calls r = [SetCookie COOKIE_NAME tok True ''lax'' False]"
      unfolding v .
    with l have "\<exists>body r. login_for_access_token demo_globals fresh_response
       (demo_request (Some ''http://localhost:3000''))
       \<lparr>username = ''alice'', password = ''wonderland''\<rparr> demo_repo = Inr (body, r) \<and>
      (\<exists>tok. cookie_calls r = [SetCookie COOKIE_NAME tok True ''lax'' False])"
      by blast
    with out show ?thesis
      unfolding v by (rule conjI)
  qed
  have 2: "logout (demo_request (Some ''https://app.example.org'')) fresh_response =
     Inr (PyNone, fresh_response\<lparr>cookie_calls := [DeleteCookie COOKIE_NAME True ''none'' True]\<rparr>)"
    using logout_clears_cookie [where request = "demo_request (Some ''https://app.example.org'')"
        and response = fresh_response, unfolded demo_origin fresh append_Nil]
  proof (elim exE conjE)
    fix samesite secure
    assume out: "logout (demo_request (Some ''https://app.example.org'')) fresh_response =
        Inr (PyNone, fresh_response\<lparr>cookie_calls := [DeleteCookie COOKIE_NAME True samesite secure]\<rparr>)"
      and rem: "\<forall>origin. Some ''https://app.example.org'' = Some origin \<and>
               \<not> str_contains ''localhost'' origin \<longrightarrow> samesite = ''none'' \<and> secure = True"
    from rem remote_origin have v: "samesite = ''none''" "secure = True"
      by simp_all
    from out show ?thesis
      unfolding v .
  qed
  have 3: "logout (demo_request None) fresh_response =
     Inr (PyNone, fresh_response\<lparr>cookie_calls := [DeleteCookie COOKIE_NAME True ''none'' True]\<rparr>)"
    using logout_clears_cookie [where request = "demo_request None"
        and response = fresh_response, unfolded demo_origin fresh append_Nil]
  proof (elim exE conjE)
    fix samesite secure
    assume out: "logout (demo_request None) fresh_response =
        Inr (PyNone, fresh_response\<lparr>cookie_calls := [DeleteCookie COOKIE_NAME True samesite secure]\<rparr>)"
      and non: "(None :: string option) = None \<longrightarrow> samesite = ''none'' \<and> secure = True"
    from non have v: "samesite = ''none''" "secure = True"
      by simp_all
    from out show ?thesis
      unfolding v .
  qed
  from 1 2 3 show ?thesis by (intro conjI) (elim conjE, assumption)+
qed

subsection \<open>The cookie is never readable by scripts\<close>

text \<open>
  C10. The two handlers that touch the cookie pass \<^verbatim>\<open>httponly=True\<close>, whatever the
  origin of the request: the one call a successful login records and the one call a
  logout records both have it. The third handler that is given the response,
  \<^verbatim>\<open>validate_token\<close>, records no cookie call.
\<close>

theorem cookie_calls_httponly:
  "(login_for_access_token g response request form repo = Inr (body, response') \<longrightarrow>
      (\<exists>c. cookie_calls response' = cookie_calls response @ [c] \<and>
           ckey c = COOKIE_NAME \<and> chttponly c = True)) \<and>
   (logout request response = Inr (body2, response2) \<longrightarrow>
      (\<exists>c. cookie_calls response2 = cookie_calls response @ [c] \<and>
           ckey c = COOKIE_NAME \<and> chttponly c = True)) \<and>
   (validate_token g access_token response = Inr (body3, response3) \<longrightarrow>
      cookie_calls response3 = cookie_calls response)"
proof (intro conjI impI)
  assume "login_for_access_token g response request form repo = Inr (body, response')"
  from login_success [OF this] obtain tok ss sec where
    "response' = set_cookie response COOKIE_NAME tok True ss sec"
    by blast
  then have "cookie_calls response' = cookie_calls response @ [SetCookie COOKIE_NAME tok True ss sec]"
    by (simp only: cookie_calls_set_cookie)
  then show "\<exists>c. cookie_calls response' = cookie_calls response @ [c] \<and>
           ckey c = COOKIE_NAME \<and> chttponly c = True"
    by simp
next
  assume "logout request response = Inr (body2, response2)"
  then obtain ss sec where "response2 = delete_cookie response COOKIE_NAME True ss sec"
    by (auto simp: logout_result)
  then have "cookie_calls response2 = cookie_calls response @ [DeleteCookie COOKIE_NAME True ss sec]"
    by (simp only: cookie_calls_delete_cookie)
  then show "\<exists>c. cookie_calls response2 = cookie_calls response @ [c] \<and>
           ckey c = COOKIE_NAME \<and> chttponly c = True"
    by simp
next
  assume "validate_token g access_token response = Inr (body3, response3)"
  then show "cookie_calls response3 = cookie_calls response"
    by (auto simp: validate_token_def split: sum.splits if_splits)
qed

lemma demo_validate:
  "validate_token demo_globals ''s3.alice'' fresh_response = Inr (PyBytes ''alice'', fresh_response)"
  by (simp add: validate_token_def demo_globals_def)

theorem cookie_calls_httponly_witness:
  "(\<exists>body r. login_for_access_token demo_globals fresh_response
       (demo_request (Some ''http://localhost:3000''))
       \<lparr>username = ''alice'', password = ''wonderland''\<rparr> demo_repo = Inr (body, r) \<and>
      chttponly (last (cookie_calls r))) \<and>
   (\<exists>body r. login_for_access_token demo_globals fresh_response
       (demo_request (Some ''https://app.example.org''))
       \<lparr>username = ''alice'', password = ''wonderland''\<rparr> demo_repo = Inr (body, r) \<and>
      chttponly (last (cookie_calls r))) \<and>
   (\<exists>body r. logout (demo_request (Some ''http://localhost:3000'')) fresh_response = Inr (body, r) \<and>
      chttponly (last (cookie_calls r))) \<and>
   (\<exists>body r. logout (demo_request (Some ''https://app.example.org'')) fresh_response = Inr (body, r) \<and>
      chttponly (last (cookie_calls r))) \<and>
   (\<exists>body r. validate_token demo_globals ''s3.alice'' fresh_response = Inr (body, r) \<and>
      cookie_calls r = cookie_calls fresh_response)"
proof -
  have at:
    "(\<exists>body r. login_for_access_token demo_globals fresh_response (demo_request origin)
          \<lparr>username = ''alice'', password = ''wonderland''\<rparr> demo_repo = Inr (body, r) \<and>
          chttponly (last (cookie_calls r))) \<and>
     (\<exists>body r. logout (demo_request origin) fresh_response = Inr (body, r) \<and>
          chttponly (last (cookie_calls r))) \<and>
     (\<exists>body r. validate_token demo_globals ''s3.alice'' fresh_response = Inr (body, r) \<and>
          cookie_calls r = cookie_calls fresh_response)" for origin
  proof -
    obtain body r where l: "login_for_access_token demo_globals fresh_response (demo_request origin)
      \<lparr>username = ''alice'', password = ''wonderland''\<rparr> demo_repo = Inr (body, r)"
      using demo_login [of origin] by blast
    obtain body2 r2 where o: "logout (demo_request origin) fresh_response = Inr (body2, r2)"
      using logout_result [of "demo_request origin" fresh_response] by blast
    note t = cookie_calls_httponly [where g = demo_globals and response = fresh_response
        and request = "demo_request origin"
        and form = "\<lparr>username = ''alice'', password = ''wonderland''\<rparr>" and repo = demo_repo
        and body = body and response' = r and ?body2.0 = body2 and ?response2.0 = r2
        and access_token = "''s3.alice''" and ?body3.0 = "PyBytes ''alice''"
        and ?response3.0 = fresh_response]
    from t l obtain c where "cookie_calls r = cookie_calls fresh_response @ [c]" "chttponly c"
      by blast
    then have 1: "chttponly (last (cookie_calls r))" by simp
    from t o obtain c2 where "cookie_calls r2 = cookie_calls fresh_response @ [c2]" "chttponly c2"
      by blast
    then have 2: "chttponly (last (cookie_calls r2))" by simp
    from t demo_validate have 3: "cookie_calls fresh_response = cookie_calls fresh_response"
      by blast
    from l 1 o 2 demo_validate 3 show ?thesis by blast
  qed
  from at [of "Some ''http://localhost:3000''"] at [of "Some ''https://app.example.org''"]
  show ?thesis by blast
qed

subsection \<open>Reading the token back\<close>

lemma get_token_outcomes:
  "get_token request =
     (case cookies request COOKIE_NAME of
        Some v \<Rightarrow> Inr (PyDict [''token'' \<mapsto> v])
      | None \<Rightarrow> Inl (OtherError ''ResponseValidationError''))"
  by (simp add: get_token_def response_model_AccessToken_def split: option.splits)

text \<open>
  C8. With the cookie \<^verbatim>\<open>jwtdown_access_token\<close> in the request, the endpoint answers with
  the dictionary whose one key \<^verbatim>\<open>token\<close> is bound to the cookie's value. Without the
  cookie it should answer with nothing and without an error; it does not. The function
  returns \<^verbatim>\<open>None\<close>, the route's own \<^verbatim>\<open>response_model=AccessToken\<close> does not admit
  \<^verbatim>\<open>None\<close>, and the request ends in a response validation error.
\<close>

theorem get_token_without_cookie_fails:
  "cookies (demo_request None\<lparr>cookies := [COOKIE_NAME \<mapsto> ''s3.alice'']\<rparr>) COOKIE_NAME
     = Some ''s3.alice'' \<and>
   get_token (demo_request None\<lparr>cookies := [COOKIE_NAME \<mapsto> ''s3.alice'']\<rparr>)
     = Inr (PyDict [''token'' \<mapsto> ''s3.alice'']) \<and>
   cookies (demo_request None) COOKIE_NAME = None \<and>
   get_token (demo_request None) = Inl (OtherError ''ResponseValidationError'')"
  by (simp add: get_token_outcomes demo_request_def)

subsection \<open>Validating a token\<close>

text \<open>
  What the handler does with each outcome of the signature check. A \<open>JWSError\<close> becomes
  the dictionary with the detail \<^verbatim>\<open>Not a good token\<close> and the status 422; a payload is
  returned as it is, with the response untouched; any other exception of the check is
  not caught. A payload comes back only from a check that succeeded. The handler is not
  given the store and does not go through \<^verbatim>\<open>jwt.decode\<close>.
\<close>

lemma validate_token_outcomes:
  "(jws_verify g t (SECRET_KEY g) ALGORITHM = Inl JWSError \<longrightarrow>
      validate_token g t response =
        Inr (PyDict [''detail'' \<mapsto> ''Not a good token''], response\<lparr>status_code := Some 422\<rparr>)) \<and>
   (\<forall>e. jws_verify g t (SECRET_KEY g) ALGORITHM = Inl e \<and> e \<noteq> JWSError \<longrightarrow>
      validate_token g t response = Inl e) \<and>
   (\<forall>payload. jws_verify g t (SECRET_KEY g) ALGORITHM = Inr payload \<longrightarrow>
      validate_token g t response = Inr (PyBytes payload, response)) \<and>
   (\<forall>payload response'. validate_token g t response = Inr (PyBytes payload, response') \<longrightarrow>
      jws_verify g t (SECRET_KEY g) ALGORITHM = Inr payload) \<and>
   (\<forall>decode. validate_token (g\<lparr>jwt_decode := decode\<rparr>) t response = validate_token g t response)"
  by (auto simp: validate_token_def split: sum.splits if_splits)

lemma split_on_three:
  "split_on CHR ''.'' ''HS256.alice.s3'' = [''HS256'', ''alice'', ''s3'']"
  "split_on CHR ''.'' ''HS256.alice.other'' = [''HS256'', ''alice'', ''other'']"
  "split_on CHR ''.'' ''HS.alice.s3'' = [''HS'', ''alice'', ''s3'']"
  by simp_all

text \<open>
  C6. A token that fails verification should be answered with the status 422 and the
  invalid-token detail, for every call. The handler does so where the check raises
  \<open>JWSError\<close>, as for a token signed under another secret, and it returns the payload of
  a token that verifies. But line 186 passes \<^verbatim>\<open>algorithms=ALGORITHM\<close>, the string
  \<^verbatim>\<open>HS256\<close>, where line 104 passes the list \<^verbatim>\<open>[ALGORITHM]\<close>. A token whose header
  names the algorithm \<^verbatim>\<open>HS\<close> is \<^verbatim>\<open>in\<close> that string, passes the allow-list, and
  fails at the construction of the key with an exception that is no \<open>JWSError\<close>: the
  handler does not catch it and the call ends in that exception instead of the 422
  answer. Resolution of the current user, given the same token, refuses it with the
  \<open>credentials_exception\<close>.
\<close>

theorem validate_token_uncaught_key_error:
  "validate_token segment_globals ''HS256.alice.s3'' fresh_response
     = Inr (PyBytes ''alice'', fresh_response) \<and>
   validate_token segment_globals ''HS256.alice.other'' fresh_response
     = Inr (PyDict [''detail'' \<mapsto> ''Not a good token''], fresh_response\<lparr>status_code := Some 422\<rparr>) \<and>
   jws_verify segment_globals ''HS.alice.s3'' (SECRET_KEY segment_globals) ALGORITHM
     = Inl (OtherError ''JWKError'') \<and>
   validate_token segment_globals ''HS.alice.s3'' fresh_response = Inl (OtherError ''JWKError'') \<and>
   get_current_user segment_globals demo_repo (Some ''HS.alice.s3'') None
     = Inl credentials_exception"
proof (intro conjI)
  show "validate_token segment_globals ''HS256.alice.s3'' fresh_response
     = Inr (PyBytes ''alice'', fresh_response)"
    by (simp add: validate_token_def segment_globals_def split_on_three verify_signature_def
        ALGORITHM_def)
  show "validate_token segment_globals ''HS256.alice.other'' fresh_response
     = Inr (PyDict [''detail'' \<mapsto> ''Not a good token''], fresh_response\<lparr>status_code := Some 422\<rparr>)"
    by (simp add: validate_token_def segment_globals_def split_on_three verify_signature_def
        ALGORITHM_def)
  show "jws_verify segment_globals ''HS.alice.s3'' (SECRET_KEY segment_globals) ALGORITHM
     = Inl (OtherError ''JWKError'')"
    by (simp add: segment_globals_def split_on_three verify_signature_def ALGORITHM_def)
  show "validate_token segment_globals ''HS.alice.s3'' fresh_response = Inl (OtherError ''JWKError'')"
    by (simp add: validate_token_def segment_globals_def split_on_three verify_signature_def
        ALGORITHM_def)
  have "select_token (Some ''HS.alice.s3'') None = Some ''HS.alice.s3''"
    by (simp add: select_token_def truthy_def)
  moreover have "jwt_decode segment_globals (Some ''HS.alice.s3'') (SECRET_KEY segment_globals)
      [ALGORITHM] = Inl JWTError"
    by (simp add: segment_globals_def split_on_three verify_signature_def ALGORITHM_def)
  ultimately show "get_current_user segment_globals demo_repo (Some ''HS.alice.s3'') None
     = Inl credentials_exception"
    by (simp add: get_current_user_decode_error)
qed

section \<open>Issuing a token\<close>

text \<open>
  C7. \<^verbatim>\<open>create_access_token\<close> hands the encoder the claims it was given, unchanged,
  with the secret and the algorithm \<^verbatim>\<open>HS256\<close>, and returns what the encoder returns, and
  this whatever the encoder is. So the signed claims have the keys of the given
  dictionary and no other: an \<^verbatim>\<open>exp\<close> or \<^verbatim>\<open>iat\<close> entry is signed only if the caller
  put it there. \<open>ACCESS_TOKEN_EXPIRE_MINUTES\<close> is 30 and takes no part in the result.
\<close>

theorem create_access_token_adds_no_claims:
  "create_access_token (g\<lparr>jwt_encode := enc\<rparr>) data = enc data (SECRET_KEY g) ALGORITHM \<and>
   create_access_token g data = jwt_encode g data (SECRET_KEY g) ALGORITHM \<and>
   dom (dict_copy data) = dom data \<and>
   ACCESS_TOKEN_EXPIRE_MINUTES = 30"
  by (simp add: create_access_token_def dict_copy_def ACCESS_TOKEN_EXPIRE_MINUTES_def)

end
